theory Spec2Isabelle
  imports Main "HOL-Library.Word"
begin

section \<open>The floating search widget of \<^verbatim>\<open>src/components/FloatingSearch.tsx\<close>\<close>

text \<open>
  The component keeps five pieces of React state and changes them in six places:
  the document-level \<^verbatim>\<open>mousedown\<close> listener, the asynchronous form handler
  \<^verbatim>\<open>handleSubmit\<close>, and the inline \<^verbatim>\<open>onClick\<close>/\<^verbatim>\<open>onChange\<close> handlers of the
  expand button, the scope button, the scope options and the text input. Each handler
  becomes a function on the record of the state. The asynchronous handler is split at
  its \<^verbatim>\<open>await\<close>: the part before it, and the \<^verbatim>\<open>finally\<close> block that runs when the
  injected operation settles.
\<close>

subsection \<open>Strings\<close>

text \<open>
  A JavaScript string is a sequence of UTF-16 code units. Literals of the source are
  ASCII, and \<open>str\<close> reads an ASCII literal as code units.
\<close>

type_synonym code_unit = "16 word"
type_synonym jsstring = "code_unit list"

definition str :: "string \<Rightarrow> jsstring" where
  "str cs = map (\<lambda>c. of_nat (of_char c)) cs"

text \<open>
  \<^verbatim>\<open>String.prototype.trim\<close> removes leading and trailing white space and line
  terminators (ECMAScript: TAB, VT, FF, SP, NBSP, ZWNBSP, the category Zs, and LF, CR,
  LS, PS). All of them are single code units.
\<close>

definition isWhiteSpace :: "code_unit \<Rightarrow> bool" where
  "isWhiteSpace c \<longleftrightarrow>
     c = 0x0009 \<or> c = 0x000A \<or> c = 0x000B \<or> c = 0x000C \<or> c = 0x000D \<or>
     c = 0x0020 \<or> c = 0x00A0 \<or> c = 0x1680 \<or>
     (0x2000 \<le> c \<and> c \<le> 0x200A) \<or>
     c = 0x2028 \<or> c = 0x2029 \<or> c = 0x202F \<or> c = 0x205F \<or> c = 0x3000 \<or>
     c = 0xFEFF"

definition trim :: "jsstring \<Rightarrow> jsstring" where
  "trim s = rev (dropWhile isWhiteSpace (rev (dropWhile isWhiteSpace s)))"

text \<open>
  \<^verbatim>\<open>toUpperCase\<close> is only ever applied to the three scope names, which are lower-case
  ASCII; on ASCII it maps \<^verbatim>\<open>a\<close>..\<^verbatim>\<open>z\<close> to \<^verbatim>\<open>A\<close>..\<^verbatim>\<open>Z\<close> and leaves the rest alone.
\<close>

definition toUpperCase :: "jsstring \<Rightarrow> jsstring" where
  "toUpperCase s = map (\<lambda>c. if 0x61 \<le> c \<and> c \<le> 0x7A then c - 0x20 else c) s"

subsection \<open>State\<close>

text \<open>The union type \<^verbatim>\<open>'all' | 'domain' | 'page'\<close> and the string each value is.\<close>

datatype scope = ScopeAll | ScopeDomain | ScopePage

fun scope_name :: "scope \<Rightarrow> jsstring" where
  "scope_name ScopeAll = str ''all''"
| "scope_name ScopeDomain = str ''domain''"
| "scope_name ScopePage = str ''page''"

text \<open>The five \<^verbatim>\<open>useState\<close> cells (lines 10 to 14).\<close>

record widget =
  isExpanded :: bool
  searchQuery :: jsstring
  searchScope :: scope
  showScopeMenu :: bool
  isLoading :: bool

definition initial :: widget where
  "initial = \<lparr>isExpanded = False, searchQuery = [], searchScope = ScopePage,
              showScopeMenu = False, isLoading = False\<rparr>"

subsection \<open>Handlers\<close>

text \<open>
  \<^verbatim>\<open>handleClickOutside\<close> (lines 19 to 28). \<open>refCurrent\<close> says that
  \<^verbatim>\<open>searchContainerRef.current\<close> is not null, \<open>containsTarget\<close> is the result of
  \<^verbatim>\<open>contains(event.target)\<close>.
\<close>

definition handleClickOutside :: "bool \<Rightarrow> bool \<Rightarrow> widget \<Rightarrow> widget" where
  "handleClickOutside refCurrent containsTarget s =
     (if refCurrent \<and> \<not> containsTarget \<and> \<not> isLoading s
      then s\<lparr>isExpanded := False, showScopeMenu := False\<rparr>
      else s)"

text \<open>The \<^verbatim>\<open>onClick\<close> of the expand button (lines 90 to 95).\<close>

definition toggleExpand :: "widget \<Rightarrow> widget" where
  "toggleExpand s =
     (if \<not> isLoading s
      then s\<lparr>isExpanded := \<not> isExpanded s, showScopeMenu := False\<rparr>
      else s)"

text \<open>The \<^verbatim>\<open>onClick\<close> of the scope button (line 120).\<close>

definition toggleScopeMenu :: "widget \<Rightarrow> widget" where
  "toggleScopeMenu s =
     (if \<not> isLoading s then s\<lparr>showScopeMenu := \<not> showScopeMenu s\<rparr> else s)"

text \<open>The \<^verbatim>\<open>onClick\<close> of a scope option (lines 162 to 165); it has no guard of its own.\<close>

definition selectScope :: "scope \<Rightarrow> widget \<Rightarrow> widget" where
  "selectScope sc s = s\<lparr>searchScope := sc, showScopeMenu := False\<rparr>"

text \<open>The \<^verbatim>\<open>onChange\<close> of the text input (line 134).\<close>

definition changeQuery :: "jsstring \<Rightarrow> widget \<Rightarrow> widget" where
  "changeQuery v s = s\<lparr>searchQuery := v\<rparr>"

text \<open>
  \<^verbatim>\<open>handleSubmit\<close> up to its \<^verbatim>\<open>await\<close> (lines 40 to 51): \<open>None\<close> is the early
  \<^verbatim>\<open>return\<close>; otherwise the new state and the string passed to \<^verbatim>\<open>onSearch\<close>.
  An empty string is the only falsy string, so \<^verbatim>\<open>!searchQuery.trim()\<close> tests for the
  empty trimmed query. \<^verbatim>\<open>e.preventDefault()\<close> does not touch the state.
\<close>

definition effectiveQuery :: "scope \<Rightarrow> jsstring \<Rightarrow> jsstring" where
  "effectiveQuery sc q = str ''['' @ toUpperCase (scope_name sc) @ str ''] '' @ q"

definition handleSubmit_begin :: "widget \<Rightarrow> (widget \<times> jsstring) option" where
  "handleSubmit_begin s =
     (if trim (searchQuery s) = [] \<or> isLoading s then None
      else Some (s\<lparr>isLoading := True, showScopeMenu := False\<rparr>,
                 effectiveQuery (searchScope s) (searchQuery s)))"

text \<open>
  How the promise returned by \<^verbatim>\<open>onSearch\<close> settles, and the \<^verbatim>\<open>finally\<close> block
  (lines 52 to 56). There is no \<^verbatim>\<open>catch\<close>: the block resets three cells and the
  outcome of the awaited promise becomes the outcome of \<^verbatim>\<open>handleSubmit\<close>.
\<close>

datatype 'e outcome = Resolved | Rejected 'e

definition handleSubmit_finally :: "'e outcome \<Rightarrow> widget \<Rightarrow> widget \<times> 'e outcome" where
  "handleSubmit_finally r s =
     (s\<lparr>isLoading := False, searchQuery := [], isExpanded := False\<rparr>, r)"

subsection \<open>The component in its environment\<close>

text \<open>
  Around the state: the prop \<^verbatim>\<open>isSummarized\<close>, the arguments \<^verbatim>\<open>onSearch\<close> has
  received so far, the number of \<^verbatim>\<open>handleSubmit\<close> calls suspended at their
  \<^verbatim>\<open>await\<close>, and the errors with which calls of \<^verbatim>\<open>handleSubmit\<close> have rejected.
\<close>

record 'e world =
  ui :: widget
  isSummarized :: bool
  searched :: "jsstring list"
  awaiting :: nat
  rejected :: "'e list"

definition mount :: "bool \<Rightarrow> 'e world" where
  "mount vis = \<lparr>ui = initial, isSummarized = vis, searched = [], awaiting = 0,
                rejected = []\<rparr>"

text \<open>
  What can happen to the component. \<open>PointerDown inside\<close> is a \<^verbatim>\<open>mousedown\<close> in the
  document whose target is inside the container or not; \<open>Settle r\<close> is the promise of a
  suspended call settling; \<open>Props vis\<close> is the host rendering the component with a new
  \<^verbatim>\<open>isSummarized\<close>.
\<close>

datatype 'e event =
    ClickExpand
  | ClickScopeButton
  | ClickScopeOption scope
  | Change jsstring
  | SubmitForm
  | PointerDown bool
  | Settle "'e outcome"
  | Props bool

text \<open>
  An event reaches its handler only when the element that carries the handler is there
  and enabled. Nothing is rendered when \<^verbatim>\<open>isSummarized\<close> is false (line 71), and the
  container ref is null then. Both buttons and the input are \<^verbatim>\<open>disabled\<close> while
  loading (lines 96, 121, 136). The scope options are rendered only under
  \<^verbatim>\<open>showScopeMenu && !isLoading\<close> (line 152). The scope button and the form are rendered
  whether or not the widget is expanded: collapsing only changes their style classes.
\<close>

fun fire :: "'e world \<Rightarrow> 'e event \<Rightarrow> 'e world" where
  "fire w ClickExpand =
     (if isSummarized w \<and> \<not> isLoading (ui w) then w\<lparr>ui := toggleExpand (ui w)\<rparr> else w)"
| "fire w ClickScopeButton =
     (if isSummarized w \<and> \<not> isLoading (ui w) then w\<lparr>ui := toggleScopeMenu (ui w)\<rparr> else w)"
| "fire w (ClickScopeOption sc) =
     (if isSummarized w \<and> showScopeMenu (ui w) \<and> \<not> isLoading (ui w)
      then w\<lparr>ui := selectScope sc (ui w)\<rparr> else w)"
| "fire w (Change v) =
     (if isSummarized w \<and> \<not> isLoading (ui w) then w\<lparr>ui := changeQuery v (ui w)\<rparr> else w)"
| "fire w SubmitForm =
     (if isSummarized w then
        (case handleSubmit_begin (ui w) of
           None \<Rightarrow> w
         | Some (s, q) \<Rightarrow> w\<lparr>ui := s, searched := searched w @ [q], awaiting := Suc (awaiting w)\<rparr>)
      else w)"
| "fire w (PointerDown inside) = w\<lparr>ui := handleClickOutside (isSummarized w) inside (ui w)\<rparr>"
| "fire w (Settle r) =
     (if 0 < awaiting w then
        (case handleSubmit_finally r (ui w) of
           (s, Resolved) \<Rightarrow> w\<lparr>ui := s, awaiting := awaiting w - 1\<rparr>
         | (s, Rejected e) \<Rightarrow> w\<lparr>ui := s, awaiting := awaiting w - 1, rejected := rejected w @ [e]\<rparr>)
      else w)"
| "fire w (Props vis) = w\<lparr>isSummarized := vis\<rparr>"

text \<open>A sequence of events, and every state it passes through.\<close>

fun run :: "'e world \<Rightarrow> 'e event list \<Rightarrow> 'e world" where
  "run w [] = w"
| "run w (e # es) = run (fire w e) es"

fun trace :: "'e world \<Rightarrow> 'e event list \<Rightarrow> 'e world list" where
  "trace w [] = [w]"
| "trace w (e # es) = w # trace (fire w e) es"

subsection \<open>Predicates on event sequences\<close>

text \<open>Events other than the settling of the awaited promise.\<close>

fun settles :: "'e event \<Rightarrow> bool" where
  "settles (Settle r) = True"
| "settles e = False"

definition quiet :: "'e event list \<Rightarrow> bool" where
  "quiet es = list_all (\<lambda>e. \<not> settles e) es"

text \<open>
  The loading flag is set exactly while one call of \<^verbatim>\<open>handleSubmit\<close> is suspended,
  and the scope menu is closed then.
\<close>

definition consistent :: "'e world \<Rightarrow> bool" where
  "consistent w \<longleftrightarrow> awaiting w = (if isLoading (ui w) then 1 else 0) \<and>
                    (isLoading (ui w) \<longrightarrow> \<not> showScopeMenu (ui w))"

section \<open>Properties\<close>

subsection \<open>Auxiliary facts\<close>

lemmas handler_defs = handleClickOutside_def toggleExpand_def toggleScopeMenu_def
  selectScope_def changeQuery_def handleSubmit_begin_def handleSubmit_finally_def

lemma dropWhile_all: "(\<forall>x\<in>set (dropWhile P xs). P x) \<longleftrightarrow> (\<forall>x\<in>set xs. P x)"
  by (induction xs) auto

text \<open>The trimmed string is empty exactly when every code unit is white space.\<close>

lemma trim_Nil_iff: "trim s = [] \<longleftrightarrow> list_all isWhiteSpace s"
  by (simp add: trim_def dropWhile_eq_Nil_conv dropWhile_all list_all_iff)

lemma scope_tag:
  "toUpperCase (scope_name sc) =
     str (case sc of ScopeAll \<Rightarrow> ''ALL'' | ScopeDomain \<Rightarrow> ''DOMAIN'' | ScopePage \<Rightarrow> ''PAGE'')"
  by (cases sc) (simp_all add: str_def toUpperCase_def)

lemma run_append: "run w (xs @ ys) = run (run w xs) ys"
  by (induction xs arbitrary: w) simp_all

lemma run_in_trace: "run w es \<in> set (trace w es)"
  by (induction es arbitrary: w) simp_all

text \<open>The handler of a scope option itself sets the scope whatever the loading flag is.\<close>

lemma selectScope_unguarded: "searchScope (selectScope sc s) = sc"
  by (simp add: selectScope_def)

text \<open>While loading, only the settling of the promise changes anything but the prop.\<close>

lemma fire_frozen:
  assumes "isLoading (ui w)" "\<not> settles e"
  shows "ui (fire w e) = ui w \<and> searched (fire w e) = searched w \<and>
         awaiting (fire w e) = awaiting w \<and> rejected (fire w e) = rejected w"
  using assms by (cases e) (simp_all add: handler_defs)

lemma run_frozen:
  assumes "isLoading (ui w)" "quiet es"
  shows "ui (run w es) = ui w \<and> searched (run w es) = searched w \<and>
         awaiting (run w es) = awaiting w \<and> rejected (run w es) = rejected w"
  using assms
proof (induction es arbitrary: w)
  case Nil
  then show ?case by simp
next
  case (Cons e es)
  from Cons.prems have e: "\<not> settles e" and es: "quiet es"
    by (simp_all add: quiet_def)
  from fire_frozen [OF Cons.prems(1) e] have same: "ui (fire w e) = ui w"
    "searched (fire w e) = searched w" "awaiting (fire w e) = awaiting w"
    "rejected (fire w e) = rejected w"
    by simp_all
  with Cons.prems(1) have "isLoading (ui (fire w e))" by simp
  from Cons.IH [OF this es] same show ?case by simp
qed

lemma consistent_mount: "consistent (mount vis)"
  by (simp add: consistent_def mount_def initial_def)

lemma consistent_fire: "consistent w \<Longrightarrow> consistent (fire w e)"
  by (cases e) (auto simp: consistent_def handler_defs split: outcome.splits)

lemma consistent_trace: "consistent w \<Longrightarrow> \<forall>v \<in> set (trace w es). consistent v"
proof (induction es arbitrary: w)
  case Nil
  then show ?case by simp
next
  case (Cons e es)
  have "consistent (fire w e)" using Cons.prems by (rule consistent_fire)
  then have "\<forall>v \<in> set (trace (fire w e) es). consistent v" by (rule Cons.IH)
  with Cons.prems show ?case by simp
qed

text \<open>An accepted submission, and the whole cycle up to the settling of the promise.\<close>

lemma fire_submit_accepted:
  assumes "isSummarized w" "trim (searchQuery (ui w)) \<noteq> []" "\<not> isLoading (ui w)"
  shows "fire w SubmitForm =
           w\<lparr>ui := (ui w)\<lparr>isLoading := True, showScopeMenu := False\<rparr>,
             searched := searched w @ [effectiveQuery (searchScope (ui w)) (searchQuery (ui w))],
             awaiting := Suc (awaiting w)\<rparr>"
  using assms by (simp add: handleSubmit_begin_def)

lemma cycle:
  assumes "isSummarized w" "trim (searchQuery (ui w)) \<noteq> []" "\<not> isLoading (ui w)" "quiet es"
  shows "ui (run w (SubmitForm # es @ [Settle r])) =
           (ui w)\<lparr>isLoading := False, showScopeMenu := False, searchQuery := [],
                  isExpanded := False\<rparr>"
    and "searched (run w (SubmitForm # es @ [Settle r])) =
           searched w @ [effectiveQuery (searchScope (ui w)) (searchQuery (ui w))]"
    and "rejected (run w (SubmitForm # es @ [Settle r])) =
           (case r of Resolved \<Rightarrow> rejected w | Rejected e \<Rightarrow> rejected w @ [e])"
    and "awaiting (run w (SubmitForm # es @ [Settle r])) = awaiting w"
proof -
  let ?w1 = "fire w SubmitForm"
  have w1: "?w1 = w\<lparr>ui := (ui w)\<lparr>isLoading := True, showScopeMenu := False\<rparr>,
             searched := searched w @ [effectiveQuery (searchScope (ui w)) (searchQuery (ui w))],
             awaiting := Suc (awaiting w)\<rparr>"
    using assms(1-3) by (rule fire_submit_accepted)
  then have "isLoading (ui ?w1)" by simp
  from run_frozen [OF this assms(4)] have fr: "ui (run ?w1 es) = ui ?w1"
    "searched (run ?w1 es) = searched ?w1" "awaiting (run ?w1 es) = awaiting ?w1"
    "rejected (run ?w1 es) = rejected ?w1"
    by simp_all
  have split: "run w (SubmitForm # es @ [Settle r]) = fire (run ?w1 es) (Settle r)"
    by (simp add: run_append)
  show "ui (run w (SubmitForm # es @ [Settle r])) =
           (ui w)\<lparr>isLoading := False, showScopeMenu := False, searchQuery := [],
                  isExpanded := False\<rparr>"
    unfolding split using fr w1 by (cases r) (simp_all add: handleSubmit_finally_def)
  show "searched (run w (SubmitForm # es @ [Settle r])) =
           searched w @ [effectiveQuery (searchScope (ui w)) (searchQuery (ui w))]"
    unfolding split using fr w1 by (cases r) (simp_all add: handleSubmit_finally_def)
  show "rejected (run w (SubmitForm # es @ [Settle r])) =
           (case r of Resolved \<Rightarrow> rejected w | Rejected e \<Rightarrow> rejected w @ [e])"
    unfolding split using fr w1 by (cases r) (simp_all add: handleSubmit_finally_def)
  show "awaiting (run w (SubmitForm # es @ [Settle r])) = awaiting w"
    unfolding split using fr w1 by (cases r) (simp_all add: handleSubmit_finally_def)
qed

text \<open>The definitions that the evaluation of a concrete run unfolds.\<close>

lemmas eval_defs = mount_def initial_def handler_defs str_def trim_def isWhiteSpace_def
  effectiveQuery_def toUpperCase_def quiet_def

subsection \<open>Accepted submission\<close>

text \<open>
  C1. When the trimmed query is not empty and nothing is loading, submitting sets the
  loading flag, closes the scope menu and calls \<^verbatim>\<open>onSearch\<close> exactly once, with the raw
  query behind the bracketed upper-case scope name. With scope \<^verbatim>\<open>page\<close> and query
  \<^verbatim>\<open>weather today\<close> the argument is \<^verbatim>\<open>[PAGE] weather today\<close>. When the promise resolves,
  whatever other events arrived in between, no further call has been made, nothing has
  been rejected, and the widget is collapsed with an empty query.
\<close>

theorem submit_passes_tagged_query:
  assumes "isSummarized w" and "trim (searchQuery (ui w)) \<noteq> []" and "\<not> isLoading (ui w)"
    and "quiet es"
  shows "fire w SubmitForm =
           w\<lparr>ui := (ui w)\<lparr>isLoading := True, showScopeMenu := False\<rparr>,
             searched := searched w @
               [str ''['' @
                str (case searchScope (ui w) of
                       ScopeAll \<Rightarrow> ''ALL'' | ScopeDomain \<Rightarrow> ''DOMAIN'' | ScopePage \<Rightarrow> ''PAGE'') @
                str ''] '' @ searchQuery (ui w)],
             awaiting := Suc (awaiting w)\<rparr> \<and>
         (searchScope (ui w) = ScopePage \<and> searchQuery (ui w) = str ''weather today'' \<longrightarrow>
            searched (fire w SubmitForm) = searched w @ [str ''[PAGE] weather today'']) \<and>
         searched (run w (SubmitForm # es @ [Settle Resolved])) = searched (fire w SubmitForm) \<and>
         rejected (run w (SubmitForm # es @ [Settle Resolved])) = rejected w \<and>
         ui (run w (SubmitForm # es @ [Settle Resolved])) =
           (ui w)\<lparr>isLoading := False, showScopeMenu := False, searchQuery := [],
                  isExpanded := False\<rparr>"
proof -
  have a: "fire w SubmitForm =
           w\<lparr>ui := (ui w)\<lparr>isLoading := True, showScopeMenu := False\<rparr>,
             searched := searched w @
               [str ''['' @
                str (case searchScope (ui w) of
                       ScopeAll \<Rightarrow> ''ALL'' | ScopeDomain \<Rightarrow> ''DOMAIN'' | ScopePage \<Rightarrow> ''PAGE'') @
                str ''] '' @ searchQuery (ui w)],
             awaiting := Suc (awaiting w)\<rparr>"
    using fire_submit_accepted [OF assms(1-3)] by (simp add: effectiveQuery_def scope_tag)
  have b: "searchScope (ui w) = ScopePage \<and> searchQuery (ui w) = str ''weather today'' \<longrightarrow>
            searched (fire w SubmitForm) = searched w @ [str ''[PAGE] weather today'']"
    unfolding a by (simp add: str_def)
  have c: "searched (run w (SubmitForm # es @ [Settle Resolved])) = searched (fire w SubmitForm)"
    using cycle(2) [OF assms, of Resolved] fire_submit_accepted [OF assms(1-3)] by simp
  have d: "rejected (run w (SubmitForm # es @ [Settle Resolved])) = rejected w"
    using cycle(3) [OF assms, of Resolved] by simp
  have e: "ui (run w (SubmitForm # es @ [Settle Resolved])) =
           (ui w)\<lparr>isLoading := False, showScopeMenu := False, searchQuery := [],
                  isExpanded := False\<rparr>"
    using assms by (rule cycle(1))
  from a b c d e show ?thesis by blast
qed

text \<open>
  The happy path from the mounted component: expand, type, submit; a pointer-down
  outside arrives while loading; the promise resolves.
\<close>

theorem submit_passes_tagged_query_witness:
  "searched (run (mount True :: unit world)
      [ClickExpand, Change (str ''weather today''), SubmitForm]) = [str ''[PAGE] weather today''] \<and>
   isLoading (ui (run (mount True :: unit world)
      [ClickExpand, Change (str ''weather today''), SubmitForm])) \<and>
   ui (run (mount True :: unit world)
      [ClickExpand, Change (str ''weather today''), SubmitForm, PointerDown False,
       Settle Resolved]) = initial"
  using submit_passes_tagged_query
    [of "run (mount True :: unit world) [ClickExpand, Change (str ''weather today'')]"
        "[PointerDown False]"]
  by (simp add: eval_defs)

subsection \<open>Failing submission\<close>

text \<open>
  C2. When the promise of an accepted submission rejects, the \<^verbatim>\<open>finally\<close> block still
  runs: the loading flag is cleared, the query is emptied and the widget is collapsed.
  Nothing catches the error: \<^verbatim>\<open>handleSubmit\<close> rejects with the same error.
\<close>

theorem rejection_cleans_up_and_propagates:
  assumes "isSummarized w" and "trim (searchQuery (ui w)) \<noteq> []" and "\<not> isLoading (ui w)"
    and "quiet es"
  shows "handleSubmit_finally (Rejected e) s =
           (s\<lparr>isLoading := False, searchQuery := [], isExpanded := False\<rparr>, Rejected e) \<and>
         \<not> isLoading (ui (run w (SubmitForm # es @ [Settle (Rejected e)]))) \<and>
         searchQuery (ui (run w (SubmitForm # es @ [Settle (Rejected e)]))) = [] \<and>
         \<not> isExpanded (ui (run w (SubmitForm # es @ [Settle (Rejected e)]))) \<and>
         rejected (run w (SubmitForm # es @ [Settle (Rejected e)])) = rejected w @ [e]"
  using cycle(1) [OF assms, of "Rejected e"] cycle(3) [OF assms, of "Rejected e"]
  by (simp add: handleSubmit_finally_def)

text \<open>A search that fails with the error \<^verbatim>\<open>offline\<close>.\<close>

theorem rejection_cleans_up_and_propagates_witness:
  "ui (run (mount True :: string world)
      [ClickExpand, Change (str ''recipe''), SubmitForm, Settle (Rejected ''offline'')]) = initial \<and>
   rejected (run (mount True :: string world)
      [ClickExpand, Change (str ''recipe''), SubmitForm, Settle (Rejected ''offline'')]) =
     [''offline'']"
  using rejection_cleans_up_and_propagates
    [of "run (mount True :: string world) [ClickExpand, Change (str ''recipe'')]" "[]"
        "''offline''" initial]
  by (simp add: eval_defs)

subsection \<open>Invariants\<close>

text \<open>
  C3. In every state that a sequence of events reaches from the mounted component, the
  scope menu is closed whenever the loading flag is set.
\<close>

theorem loading_excludes_scope_menu:
  "\<forall>w \<in> set (trace (mount vis) es). isLoading (ui w) \<longrightarrow> \<not> showScopeMenu (ui w)"
  using consistent_trace [OF consistent_mount, of vis es] by (simp add: consistent_def)

text \<open>The menu was open when the form was submitted; it is closed in the loading state.\<close>

theorem loading_excludes_scope_menu_witness:
  "isLoading (ui (run (mount True :: unit world)
      [ClickExpand, Change (str ''a''), ClickScopeButton, SubmitForm])) \<and>
   \<not> showScopeMenu (ui (run (mount True :: unit world)
      [ClickExpand, Change (str ''a''), ClickScopeButton, SubmitForm]))"
proof -
  let ?es = "[ClickExpand, Change (str ''a''), ClickScopeButton, SubmitForm :: unit event]"
  have loading: "isLoading (ui (run (mount True) ?es))"
    by (simp add: eval_defs)
  have "run (mount True) ?es \<in> set (trace (mount True) ?es)"
    by (rule run_in_trace)
  with loading_excludes_scope_menu [of True ?es]
  have "isLoading (ui (run (mount True) ?es)) \<longrightarrow> \<not> showScopeMenu (ui (run (mount True) ?es))"
    by (rule bspec)
  with loading show ?thesis by simp
qed

subsection \<open>Guards of the submission\<close>

text \<open>
  C4. Submitting a query that is empty or consists of white space only does nothing:
  the handler returns early, no cell changes (the loading flag in particular), and
  \<^verbatim>\<open>onSearch\<close> is not called.
\<close>

theorem blank_submit_ignored:
  assumes "list_all isWhiteSpace (searchQuery (ui w))"
  shows "handleSubmit_begin (ui w) = None \<and> fire w SubmitForm = w \<and>
         isLoading (ui (fire w SubmitForm)) = isLoading (ui w) \<and>
         searched (fire w SubmitForm) = searched w"
  using assms by (simp add: handleSubmit_begin_def trim_Nil_iff)

text \<open>The empty query and the query of three spaces.\<close>

theorem blank_submit_ignored_witness:
  "run (mount True :: unit world) [ClickExpand, SubmitForm] = run (mount True) [ClickExpand] \<and>
   run (mount True :: unit world) [ClickExpand, Change (str ''   ''), SubmitForm] =
     run (mount True) [ClickExpand, Change (str ''   '')] \<and>
   searched (run (mount True :: unit world) [ClickExpand, Change (str ''   ''), SubmitForm]) = [] \<and>
   isLoading (ui (run (mount True :: unit world) [ClickExpand, Change (str ''   ''), SubmitForm])) = False"
  using blank_submit_ignored [of "run (mount True :: unit world) [ClickExpand]"]
    blank_submit_ignored [of "run (mount True :: unit world) [ClickExpand, Change (str ''   '')]"]
  by (simp add: eval_defs)

text \<open>
  C5. While the loading flag is set a submission does nothing. So two submissions in a
  row, the first one accepted, call \<^verbatim>\<open>onSearch\<close> exactly once and leave one call
  suspended; in any state the second of two submissions in a row changes nothing.
\<close>

theorem second_submit_ignored:
  "(isLoading (ui w) \<longrightarrow> handleSubmit_begin (ui w) = None \<and> fire w SubmitForm = w) \<and>
   (isSummarized w \<and> trim (searchQuery (ui w)) \<noteq> [] \<and> \<not> isLoading (ui w) \<longrightarrow>
      searched (run w [SubmitForm, SubmitForm]) =
        searched w @ [effectiveQuery (searchScope (ui w)) (searchQuery (ui w))] \<and>
      awaiting (run w [SubmitForm, SubmitForm]) = Suc (awaiting w)) \<and>
   run w [SubmitForm, SubmitForm] = run w [SubmitForm]"
  by (simp add: handleSubmit_begin_def)

text \<open>Two submissions of \<^verbatim>\<open>recipe\<close> in a row.\<close>

theorem second_submit_ignored_witness:
  "searched (run (mount True :: unit world)
      [ClickExpand, Change (str ''recipe''), SubmitForm, SubmitForm]) = [str ''[PAGE] recipe''] \<and>
   awaiting (run (mount True :: unit world)
      [ClickExpand, Change (str ''recipe''), SubmitForm, SubmitForm]) = 1 \<and>
   fire (run (mount True :: unit world) [ClickExpand, Change (str ''recipe''), SubmitForm]) SubmitForm =
     run (mount True) [ClickExpand, Change (str ''recipe''), SubmitForm]"
  using second_submit_ignored [of "run (mount True :: unit world) [ClickExpand, Change (str ''recipe'')]"]
    second_submit_ignored [of "run (mount True :: unit world) [ClickExpand, Change (str ''recipe''), SubmitForm]"]
  by (simp add: eval_defs)

subsection \<open>Pointer-down outside the widget\<close>

text \<open>
  C6. When the widget is rendered and not loading, a pointer-down whose target is
  outside the container collapses the widget and closes the scope menu; the query and
  the scope stay as they are.
\<close>

theorem outside_pointer_down_collapses:
  assumes "isSummarized w" and "\<not> isLoading (ui w)"
  shows "handleClickOutside True False (ui w) =
           (ui w)\<lparr>isExpanded := False, showScopeMenu := False\<rparr> \<and>
         fire w (PointerDown False) = w\<lparr>ui := (ui w)\<lparr>isExpanded := False, showScopeMenu := False\<rparr>\<rparr> \<and>
         \<not> isExpanded (ui (fire w (PointerDown False))) \<and>
         \<not> showScopeMenu (ui (fire w (PointerDown False))) \<and>
         searchQuery (ui (fire w (PointerDown False))) = searchQuery (ui w) \<and>
         searchScope (ui (fire w (PointerDown False))) = searchScope (ui w)"
  using assms by (simp add: handleClickOutside_def)

text \<open>Expanded with the query \<^verbatim>\<open>abc\<close>: collapsed afterwards, the query still \<^verbatim>\<open>abc\<close>.\<close>

theorem outside_pointer_down_collapses_witness:
  "ui (run (mount True :: unit world) [ClickExpand, Change (str ''abc''), PointerDown False]) =
     initial\<lparr>searchQuery := str ''abc''\<rparr>"
  using outside_pointer_down_collapses
    [of "run (mount True :: unit world) [ClickExpand, Change (str ''abc'')]"]
  by (simp add: eval_defs)

text \<open>
  C7. While the loading flag is set, a pointer-down changes nothing, wherever its target
  is and however often it happens: the widget stays expanded and loading until the
  promise settles.
\<close>

theorem outside_pointer_down_suppressed_while_loading:
  assumes "isLoading (ui w)"
  shows "handleClickOutside present inside (ui w) = ui w \<and>
         fire w (PointerDown inside) = w \<and>
         run w (map PointerDown bs) = w"
proof -
  have one: "fire w (PointerDown b) = w" for b
    using assms by (simp add: handleClickOutside_def)
  have many: "run w (map PointerDown bs) = w"
    by (induction bs) (simp_all add: one del: fire.simps)
  from assms one many show ?thesis by (simp add: handleClickOutside_def)
qed

text \<open>A pointer-down outside while the search for \<^verbatim>\<open>abc\<close> is in flight.\<close>

theorem outside_pointer_down_suppressed_while_loading_witness:
  "isExpanded (ui (run (mount True :: unit world)
      [ClickExpand, Change (str ''abc''), SubmitForm, PointerDown False])) \<and>
   isLoading (ui (run (mount True :: unit world)
      [ClickExpand, Change (str ''abc''), SubmitForm, PointerDown False]))"
  using outside_pointer_down_suppressed_while_loading
    [of "run (mount True :: unit world) [ClickExpand, Change (str ''abc''), SubmitForm]" True False "[]"]
  by (simp add: eval_defs)

subsection \<open>Controls while loading\<close>

text \<open>
  C8. While the loading flag is set, a click on the expand button, on the scope button
  or on a scope option changes nothing. The handlers of the two buttons check the flag
  themselves; the scope options are not rendered while loading, so the click never
  reaches their handler and the scope cannot change.
\<close>

theorem controls_ignored_while_loading:
  assumes "isLoading (ui w)"
  shows "toggleExpand (ui w) = ui w \<and> toggleScopeMenu (ui w) = ui w \<and>
         fire w ClickExpand = w \<and> fire w ClickScopeButton = w \<and>
         fire w (ClickScopeOption sc) = w"
  using assms by (simp add: toggleExpand_def toggleScopeMenu_def)

text \<open>The three clicks while the search for \<^verbatim>\<open>abc\<close> is in flight.\<close>

theorem controls_ignored_while_loading_witness:
  "run (mount True :: unit world)
      [ClickExpand, Change (str ''abc''), SubmitForm, ClickExpand, ClickScopeButton,
       ClickScopeOption ScopeAll] =
   run (mount True) [ClickExpand, Change (str ''abc''), SubmitForm] \<and>
   searchScope (ui (run (mount True :: unit world)
      [ClickExpand, Change (str ''abc''), SubmitForm, ClickScopeOption ScopeAll])) = ScopePage"
  using controls_ignored_while_loading
    [of "run (mount True :: unit world) [ClickExpand, Change (str ''abc''), SubmitForm]" ScopeAll]
  by (simp add: eval_defs)

subsection \<open>Collapsed widget and scope menu\<close>

text \<open>
  Both paths that collapse the widget on a user's action close the scope menu with it:
  the expand button (lines 92 and 93) and the pointer-down outside (lines 25 and 26).
\<close>

lemma collapse_paths_close_menu:
  "\<not> showScopeMenu (ui (fire w ClickExpand)) \<or> fire w ClickExpand = w"
  "\<not> showScopeMenu (ui (fire w (PointerDown inside))) \<or> fire w (PointerDown inside) = w"
  by (simp_all add: toggleExpand_def handleClickOutside_def)

text \<open>
  C9. In every reachable state a collapsed widget should have its scope menu closed.
  The code does not keep this. The scope button is rendered and enabled in the
  collapsed widget too (lines 116 to 127: collapsing only changes style classes), and
  its handler (line 120) looks at \<^verbatim>\<open>isLoading\<close> only, not at \<^verbatim>\<open>isExpanded\<close>. One click on
  it in the initial state leaves the widget collapsed with \<^verbatim>\<open>showScopeMenu\<close> set, and
  line 152 then renders the menu.
\<close>

theorem scope_button_opens_menu_while_collapsed:
  "\<not> isExpanded (ui (run (mount True :: unit world) [ClickScopeButton])) \<and>
   showScopeMenu (ui (run (mount True :: unit world) [ClickScopeButton])) \<and>
   \<not> isLoading (ui (run (mount True :: unit world) [ClickScopeButton]))"
  by (simp add: eval_defs)

subsection \<open>Scope across a submission\<close>

text \<open>
  C10. The \<^verbatim>\<open>finally\<close> block does not assign the scope. After an accepted submission
  has settled, with success or failure and whatever other events arrived in between, the
  scope is what it was when the submission was accepted, while the query, the loading
  flag and the expansion are back at their initial values.
\<close>

theorem cleanup_keeps_scope:
  assumes "isSummarized w" and "trim (searchQuery (ui w)) \<noteq> []" and "\<not> isLoading (ui w)"
    and "quiet es"
  shows "searchScope (fst (handleSubmit_finally r s)) = searchScope s \<and>
         searchScope (ui (run w (SubmitForm # es @ [Settle r]))) = searchScope (ui w) \<and>
         searchQuery (ui (run w (SubmitForm # es @ [Settle r]))) = searchQuery initial \<and>
         isLoading (ui (run w (SubmitForm # es @ [Settle r]))) = isLoading initial \<and>
         isExpanded (ui (run w (SubmitForm # es @ [Settle r]))) = isExpanded initial"
  using cycle(1) [OF assms, of r] by (simp add: handleSubmit_finally_def initial_def)

text \<open>Scope \<^verbatim>\<open>all\<close>, a click on the scope button while loading, a failing search.\<close>

theorem cleanup_keeps_scope_witness:
  "searchScope (ui (run (mount True :: string world)
      [ClickExpand, ClickScopeButton, ClickScopeOption ScopeAll, Change (str ''recipe''),
       SubmitForm, ClickScopeButton, Settle (Rejected ''offline'')])) = ScopeAll \<and>
   searched (run (mount True :: string world)
      [ClickExpand, ClickScopeButton, ClickScopeOption ScopeAll, Change (str ''recipe''),
       SubmitForm, ClickScopeButton, Settle (Rejected ''offline'')]) = [str ''[ALL] recipe'']"
  using cleanup_keeps_scope
    [of "run (mount True :: string world)
          [ClickExpand, ClickScopeButton, ClickScopeOption ScopeAll, Change (str ''recipe'')]"
        "[ClickScopeButton]" "Rejected ''offline''" initial]
  by (simp add: eval_defs)

end
